theory Spec2Isabelle
  imports Complex_Main "HOL-Library.Sublist"
begin

section \<open>JavaScript strings and arrays\<close>

text \<open>
  Strings are lists of characters. \<open>trim\<close> strips the white space and line terminators of
  ECMAScript that fit into one \<^typ>\<open>char\<close>: tab, line feed, vertical tab, form feed,
  carriage return, space and no-break space.
\<close>

definition is_ws :: "char \<Rightarrow> bool" where
  "is_ws c = (c \<in> {CHR 0x09, CHR 0x0A, CHR 0x0B, CHR 0x0C, CHR 0x0D, CHR '' '', CHR 0xA0})"

definition trim :: "string \<Rightarrow> string" where
  "trim s = rev (dropWhile is_ws (rev (dropWhile is_ws s)))"

text \<open>\<open>s.startsWith(p)\<close> and \<open>s.slice(n)\<close> for a non-negative \<open>n\<close>.\<close>

definition startsWith :: "string \<Rightarrow> string \<Rightarrow> bool" where
  "startsWith s p = (take (length p) s = p)"

definition slice :: "nat \<Rightarrow> string \<Rightarrow> string" where
  "slice n s = drop n s"

text \<open>\<open>s.split('\n')\<close>: always at least one piece, the pieces never hold a line feed.\<close>

fun split_newline :: "string \<Rightarrow> string list" where
  "split_newline [] = [[]]"
| "split_newline (c # cs) =
     (if c = CHR 0x0A then [] # split_newline cs
      else (case split_newline cs of [] \<Rightarrow> [[c]] | l # ls \<Rightarrow> (c # l) # ls))"

text \<open>\<open>xs.join(sep)\<close> on an array of strings.\<close>

fun join :: "string \<Rightarrow> string list \<Rightarrow> string" where
  "join sep [] = []"
| "join sep [x] = x"
| "join sep (x # y # ys) = x @ sep @ join sep (y # ys)"

text \<open>The decimal numeral that a template literal prints for an array index.\<close>

fun show_nat :: "nat \<Rightarrow> string" where
  "show_nat n =
     (if n < 10 then [''0123456789'' ! n]
      else show_nat (n div 10) @ [''0123456789'' ! (n mod 10)])"

text \<open>\<open>xs.filter(p)\<close>: walks the array from the front and pushes the elements that pass.\<close>

fun array_filter :: "('a \<Rightarrow> bool) \<Rightarrow> 'a list \<Rightarrow> 'a list \<Rightarrow> 'a list" where
  "array_filter p [] kept = kept"
| "array_filter p (x # xs) kept =
     (if p x then array_filter p xs (kept @ [x]) else array_filter p xs kept)"

text \<open>\<open>xs.map((x, idx) => f(x, idx))\<close>, the index counted from \<open>i\<close>.\<close>

fun array_map_idx :: "('a \<Rightarrow> nat \<Rightarrow> 'b) \<Rightarrow> nat \<Rightarrow> 'a list \<Rightarrow> 'b list" where
  "array_map_idx f i [] = []"
| "array_map_idx f i (x # xs) = f x i # array_map_idx f (Suc i) xs"

text \<open>
  The values \<open>request.json()\<close> can return. An object is the list of its members. A value
  read from a property is a \<open>json option\<close>, with \<open>None\<close> for \<open>undefined\<close>.
\<close>

datatype json =
    JNull
  | JBool bool
  | JNum real
  | JStr string
  | JArr "json list"
  | JObj "(string \<times> json) list"

text \<open>
  Reading one of the properties \<open>message\<close>, \<open>sessionId\<close>, \<open>contextStyle\<close> of a value that is
  not \<open>null\<close>: a member of an object, and \<open>undefined\<close> on a boolean, a number, a string or an
  array, none of which has a property of these names. On \<open>null\<close> the read throws, which the
  caller handles before it reads.
\<close>

fun get_prop :: "json \<Rightarrow> string \<Rightarrow> json option" where
  "get_prop (JObj members) key = map_of members key"
| "get_prop v key = None"

fun truthy :: "json option \<Rightarrow> bool" where
  "truthy None = False"
| "truthy (Some JNull) = False"
| "truthy (Some (JBool b)) = b"
| "truthy (Some (JNum x)) = (x \<noteq> 0)"
| "truthy (Some (JStr s)) = (s \<noteq> [])"
| "truthy (Some (JArr xs)) = True"
| "truthy (Some (JObj members)) = True"

fun typeof_string :: "json option \<Rightarrow> bool" where
  "typeof_string (Some (JStr s)) = True"
| "typeof_string v = False"

fun str_of :: "json option \<Rightarrow> string" where
  "str_of (Some (JStr s)) = s"
| "str_of v = []"

text \<open>
  The string a value becomes in \<open>v + '-user'\<close> and in a template literal. The conversion of
  a number and of an array is left to \<open>conv\<close>.
\<close>

fun js_String :: "(json \<Rightarrow> string) \<Rightarrow> json option \<Rightarrow> string" where
  "js_String conv None = ''undefined''"
| "js_String conv (Some JNull) = ''null''"
| "js_String conv (Some (JBool b)) = (if b then ''true'' else ''false'')"
| "js_String conv (Some (JNum x)) = conv (JNum x)"
| "js_String conv (Some (JStr s)) = s"
| "js_String conv (Some (JArr xs)) = conv (JArr xs)"
| "js_String conv (Some (JObj members)) = ''[object Object]''"

text \<open>An environment variable is unset or holds a string; \<open>!process.env.X\<close> is true for
  both the unset and the empty one.\<close>

definition env_missing :: "string option \<Rightarrow> bool" where
  "env_missing v = (case v of None \<Rightarrow> True | Some s \<Rightarrow> s = [])"

section \<open>lib/types\<close>

type_synonym metadata = "(string \<times> string) list"

record DocumentSource =
  src_id :: string
  src_name :: string
  src_pageContent :: string
  src_metadata :: "metadata option"

datatype chunk_type = T_text | T_image | T_sources | T_done | T_error

record StreamChunk =
  ch_type :: chunk_type
  ch_content :: string

text \<open>The metadata bag of a message: the two keys the code writes.\<close>

record msg_metadata =
  md_sources :: "DocumentSource list"
  md_timestamp :: string

section \<open>The stream route: POST /api/chat/[id]/stream\<close>

subsection \<open>Collaborators\<close>

text \<open>A retrieved document of the vector store, and a row of each table.\<close>

record Document =
  doc_pageContent :: string
  doc_metadata :: "metadata option"

record ProjectRow =
  proj_id :: string
  proj_userId :: string

record MessageRow =
  row_id :: string
  row_projectId :: string
  row_content :: string
  row_role :: string
  row_createdAt :: nat
  row_isDeleted :: bool
  row_metadata :: "msg_metadata option"

text \<open>The \<open>data\<close> rows handed to \<open>createMany\<close>: the four columns the route fills.\<close>

record MessageCreate =
  new_id :: string
  new_projectId :: string
  new_content :: string
  new_role :: string

record database =
  db_projects :: "ProjectRow list"
  db_messages :: "MessageRow list"

text \<open>One element of the model's stream is a delta whose content may be missing; the
  iteration either completes or throws after the deltas it delivered.\<close>

datatype stream_end = Completed | Failed

record ChatCompletionMessageParam =
  llm_role :: string
  llm_content :: string

text \<open>
  Everything outside the route that one request meets: the session, the tables, the
  process environment, the vector store (\<open>None\<close> when the call throws), the model
  (\<open>None\<close> when \<open>create\<close> throws), whether the insert succeeds, the clock,
  \<open>JSON.stringify\<close> on the sources array, and the conversion of a number or an array to a
  string.
\<close>

record env =
  env_session_user :: "string option"
  env_db :: database
  env_OPENAI_API_KEY :: "string option"
  env_PINECONE_API_KEY :: "string option"
  env_PINECONE_INDEX_NAME :: "string option"
  env_similaritySearchWithScore :: "string \<Rightarrow> string \<Rightarrow> nat \<Rightarrow> (Document \<times> real) list option"
  env_completions_create :: "ChatCompletionMessageParam list \<Rightarrow> (string option list \<times> stream_end) option"
  env_insert_ok :: bool
  env_now :: nat
  env_stringify :: "DocumentSource list \<Rightarrow> string"
  env_toString :: "json \<Rightarrow> string"

text \<open>A request: the route parameter and what \<open>request.json()\<close> returns, \<open>None\<close> when it
  throws.\<close>

record request =
  req_params_id :: string
  req_body :: "json option"

subsection \<open>prisma\<close>

text \<open>\<open>orderBy: { createdAt: 'desc' }, take: 10\<close> on the messages of one project. No
  \<open>where\<close> clause is given for the included messages.\<close>

definition include_messages :: "MessageRow list \<Rightarrow> string \<Rightarrow> MessageRow list" where
  "include_messages tbl pid =
     take 10 (rev (sort_key row_createdAt (filter (\<lambda>m. row_projectId m = pid) tbl)))"

definition findFirst_project :: "database \<Rightarrow> string \<Rightarrow> string \<Rightarrow> (ProjectRow \<times> MessageRow list) option" where
  "findFirst_project db pid uid =
     (case filter (\<lambda>p. proj_id p = pid \<and> proj_userId p = uid) (db_projects db) of
        [] \<Rightarrow> None
      | p # ps \<Rightarrow> Some (p, include_messages (db_messages db) (proj_id p)))"

text \<open>A created row takes the column defaults of the migration for what \<open>data\<close> leaves
  out: \<open>isDeleted\<close> false, \<open>metadata\<close> null, and the insertion time.\<close>

definition insert_row :: "nat \<Rightarrow> MessageCreate \<Rightarrow> MessageRow" where
  "insert_row now d =
     \<lparr>row_id = new_id d, row_projectId = new_projectId d, row_content = new_content d,
      row_role = new_role d, row_createdAt = now, row_isDeleted = False, row_metadata = None\<rparr>"

definition createMany :: "bool \<Rightarrow> nat \<Rightarrow> MessageRow list \<Rightarrow> MessageCreate list \<Rightarrow> MessageRow list option" where
  "createMany ok now tbl data = (if ok then Some (tbl @ map (insert_row now) data) else None)"

subsection \<open>The stream controller\<close>

record ctrl =
  emitted :: "StreamChunk list"
  closed :: bool
  table :: "MessageRow list"

definition sendChunk :: "StreamChunk \<Rightarrow> ctrl \<Rightarrow> ctrl" where
  "sendChunk chunk st = st\<lparr>emitted := emitted st @ [chunk]\<rparr>"

definition sendError :: "string \<Rightarrow> ctrl \<Rightarrow> ctrl" where
  "sendError e st = (sendChunk \<lparr>ch_type = T_error, ch_content = e\<rparr> st)\<lparr>closed := True\<rparr>"

definition sendDone :: "ctrl \<Rightarrow> ctrl" where
  "sendDone st = (sendChunk \<lparr>ch_type = T_done, ch_content = []\<rparr> st)\<lparr>closed := True\<rparr>"

definition SIM_THRESHOLD :: real where
  "SIM_THRESHOLD = 0.75"

text \<open>\<open>scored.filter(([, score]) => score >= threshold)\<close>; the route calls it with
  \<open>SIM_THRESHOLD\<close>. A score is the real number it denotes; a score that is not a number
  fails the comparison in the source and its entry is dropped like one below the threshold.\<close>

definition filtered :: "real \<Rightarrow> (Document \<times> real) list \<Rightarrow> (Document \<times> real) list" where
  "filtered threshold scored = array_filter (\<lambda>(doc, score). score \<ge> threshold) scored []"

definition source_name :: "Document \<Rightarrow> string" where
  "source_name doc =
     (case doc_metadata doc of
        None \<Rightarrow> ''Document''
      | Some md \<Rightarrow>
          (case map_of md ''documentName'' of
             None \<Rightarrow> ''Document''
           | Some n \<Rightarrow> if n = [] then ''Document'' else n))"

definition sources_of :: "(Document \<times> real) list \<Rightarrow> DocumentSource list" where
  "sources_of flt =
     array_map_idx (\<lambda>(doc, score) idx.
        \<lparr>src_id = ''src-'' @ show_nat idx, src_name = source_name doc,
         src_pageContent = doc_pageContent doc, src_metadata = doc_metadata doc\<rparr>) 0 flt"

definition contextText :: "DocumentSource list \<Rightarrow> string" where
  "contextText sources =
     join ([CHR 0x0A] @ ''---'' @ [CHR 0x0A])
       (array_map_idx (\<lambda>s i. ''['' @ show_nat (i + 1) @ ''] '' @ src_pageContent s) 0 sources)"

definition baseSystem :: "string \<Rightarrow> string" where
  "baseSystem contextStyle =
     ''You are an AI assistant with broad knowledge. When an additional CONTEXT section is supplied, use it to improve accuracy, resolve ambiguity, or cite sources. If the context contradicts general knowledge, follow the context. If the context does not relate to the question, rely on your own knowledge. Respond in a ''
     @ contextStyle @ '' style.''"

text \<open>\<open>project.messages.slice(0, 6).reverse()\<close>\<close>

definition recentMessages :: "MessageRow list \<Rightarrow> MessageRow list" where
  "recentMessages project_messages = rev (take 6 project_messages)"

text \<open>The \<open>for (const m of recentMessages) messagesForLLM.push(...)\<close> loop.\<close>

fun push_history :: "MessageRow list \<Rightarrow> ChatCompletionMessageParam list \<Rightarrow> ChatCompletionMessageParam list" where
  "push_history [] msgs = msgs"
| "push_history (m # ms) msgs =
     push_history ms (msgs @ [\<lparr>llm_role = row_role m, llm_content = row_content m\<rparr>])"

definition messagesForLLM :: "string \<Rightarrow> DocumentSource list \<Rightarrow> MessageRow list \<Rightarrow> string \<Rightarrow> ChatCompletionMessageParam list" where
  "messagesForLLM contextStyle sources recent message =
     (let m0 = [\<lparr>llm_role = ''system'', llm_content = baseSystem contextStyle\<rparr>];
          m1 = (if length sources > 0
                then m0 @ [\<lparr>llm_role = ''system'',
                            llm_content = ''Context:'' @ [CHR 0x0A] @ contextText sources\<rparr>]
                else m0);
          m2 = push_history recent m1
      in m2 @ [\<lparr>llm_role = ''user'', llm_content = message\<rparr>])"

text \<open>The \<open>for await (const chunk of completion)\<close> loop: a delta with content is added to
  \<open>fullResponse\<close> and sent as one text chunk; a delta without content is passed over.\<close>

fun stream_deltas :: "string option list \<Rightarrow> string \<Rightarrow> ctrl \<Rightarrow> string \<times> ctrl" where
  "stream_deltas [] fullResponse st = (fullResponse, st)"
| "stream_deltas (None # ds) fullResponse st = stream_deltas ds fullResponse st"
| "stream_deltas (Some c # ds) fullResponse st =
     (if c \<noteq> []
      then stream_deltas ds (fullResponse @ c) (sendChunk \<lparr>ch_type = T_text, ch_content = c\<rparr> st)
      else stream_deltas ds fullResponse st)"

definition exchange_rows :: "string \<Rightarrow> string \<Rightarrow> string \<Rightarrow> string \<Rightarrow> MessageCreate list" where
  "exchange_rows sessionId projectId message fullResponse =
     [\<lparr>new_id = sessionId @ ''-user'', new_projectId = projectId, new_content = message,
       new_role = ''user''\<rparr>,
      \<lparr>new_id = sessionId @ ''-assistant'', new_projectId = projectId,
       new_content = fullResponse, new_role = ''assistant''\<rparr>]"

text \<open>The insert inside its own \<open>try\<close>: a failure is logged and the table stays as it was.\<close>

definition save_conversation :: "env \<Rightarrow> MessageCreate list \<Rightarrow> ctrl \<Rightarrow> ctrl" where
  "save_conversation e data st =
     (case createMany (env_insert_ok e) (env_now e) (table st) data of
        None \<Rightarrow> st
      | Some tbl \<Rightarrow> st\<lparr>table := tbl\<rparr>)"

definition generic_error :: string where
  "generic_error = ''An error occurred while processing your message''"

text \<open>The body of \<open>start(controller)\<close>.\<close>

definition start :: "env \<Rightarrow> MessageRow list \<Rightarrow> string \<Rightarrow> string \<Rightarrow> string \<Rightarrow> string \<Rightarrow> ctrl \<Rightarrow> ctrl" where
  "start e project_messages projectId message sessionId contextStyle st =
     (if env_missing (env_OPENAI_API_KEY e) then sendError ''OpenAI API key not configured'' st
      else
        let recent = recentMessages project_messages in
        if env_missing (env_PINECONE_API_KEY e) \<or> env_missing (env_PINECONE_INDEX_NAME e)
        then sendError ''Pinecone environment variables not configured'' st
        else
          (case env_similaritySearchWithScore e (''project-'' @ projectId) message 4 of
             None \<Rightarrow> sendError generic_error st
           | Some scored \<Rightarrow>
               let sources = sources_of (filtered SIM_THRESHOLD scored);
                   st1 = sendChunk \<lparr>ch_type = T_sources, ch_content = env_stringify e sources\<rparr> st
               in
               (case env_completions_create e (messagesForLLM contextStyle sources recent message) of
                  None \<Rightarrow> sendError generic_error st1
                | Some (deltas, ending) \<Rightarrow>
                    (case stream_deltas deltas [] st1 of
                       (fullResponse, st2) \<Rightarrow>
                         (case ending of
                            Failed \<Rightarrow> sendError generic_error st2
                          | Completed \<Rightarrow>
                              sendDone
                                (save_conversation e
                                   (exchange_rows sessionId projectId message fullResponse) st2))))))"

text \<open>\<open>new ReadableStream({ start })\<close>: \<open>start\<close> runs on a fresh controller, with the
  table as the request found it.\<close>

definition open_stream :: "env \<Rightarrow> MessageRow list \<Rightarrow> string \<Rightarrow> string \<Rightarrow> string \<Rightarrow> string \<Rightarrow> ctrl" where
  "open_stream e project_messages projectId message sessionId contextStyle =
     start e project_messages projectId message sessionId contextStyle
       \<lparr>emitted = [], closed = False, table = db_messages (env_db e)\<rparr>"

datatype response = Response string nat | EventStream ctrl

text \<open>
  The handler. A body that is not JSON makes \<open>request.json()\<close> throw, and the body \<open>null\<close>
  makes the destructuring throw; the outer \<open>catch\<close> answers both with status 500. The
  default of \<open>contextStyle\<close> applies to \<open>undefined\<close> only.
\<close>

definition POST :: "env \<Rightarrow> request \<Rightarrow> response" where
  "POST e req =
     (case env_session_user e of
        None \<Rightarrow> Response ''Unauthorized'' 401
      | Some uid \<Rightarrow>
          let projectId = req_params_id req in
          (case findFirst_project (env_db e) projectId uid of
             None \<Rightarrow> Response ''Project not found or access denied'' 403
           | Some (project, project_messages) \<Rightarrow>
               (case req_body req of
                  None \<Rightarrow> Response ''Internal server error'' 500
                | Some b \<Rightarrow>
                    if b = JNull then Response ''Internal server error'' 500
                    else
                      let message = get_prop b ''message'';
                          sessionId = get_prop b ''sessionId'';
                          contextStyle = (case get_prop b ''contextStyle'' of
                                            None \<Rightarrow> Some (JStr ''detailed'')
                                          | Some v \<Rightarrow> Some v)
                      in
                      if \<not> truthy message \<or> \<not> typeof_string message
                      then Response ''Message is required'' 400
                      else EventStream
                             (open_stream e project_messages projectId (str_of message)
                                (js_String (env_toString e) sessionId)
                                (js_String (env_toString e) contextStyle)))))"

section \<open>The consumer hook: useSSEChat\<close>

record Message =
  msg_id :: string
  msg_role :: string
  msg_content :: string
  msg_images :: "string list option"
  msg_metadata :: "msg_metadata option"
  msg_createdAt :: nat

record ChatState =
  messages :: "Message list"
  isLoading :: bool
  streamingContent :: string
  sources :: "DocumentSource list"
  error :: "string option"

record send_options =
  opt_contextStyle :: "string option"
  opt_images :: "string list option"

record fetch_body =
  fb_message :: string
  fb_sessionId :: string
  fb_contextStyle :: string
  fb_images :: "string list"

datatype js_error = JsError (err_name: string) (err_message: string)

text \<open>
  What the transport delivers to \<open>reader.read()\<close>: decoded chunks, then either the end of
  the stream or a rejected read. An abort of the request rejects the pending read with an
  error named \<open>AbortError\<close>.
\<close>

datatype read_end = Exhausted | ReadRejected js_error

record transport =
  tr_chunks :: "string list"
  tr_ending :: read_end

datatype fetch_outcome =
    FetchRejected js_error
  | FetchResponse (resp_ok: bool) (resp_status: nat) (resp_body: "transport option")

text \<open>
  What one call of \<open>sendMessage\<close> takes from outside: the results of its three
  \<open>generateSessionId()\<close> calls, the clock, the outcome of \<open>fetch\<close>, and \<open>JSON.parse\<close> on
  an event line and on the content of a sources event (\<open>None\<close> when it throws).
\<close>

record client_env =
  cl_id_user :: string
  cl_id_request :: string
  cl_id_assistant :: string
  cl_now :: nat
  cl_now_iso :: string
  cl_fetch :: "fetch_body \<Rightarrow> fetch_outcome"
  cl_JSON_parse :: "string \<Rightarrow> StreamChunk option"
  cl_JSON_parse_sources :: "string \<Rightarrow> DocumentSource list option"

text \<open>The local variables of the read loop, and a count of the \<open>reader.releaseLock()\<close>
  calls made so far.\<close>

record reader_locals =
  fullAssistantContent :: string
  currentSources :: "DocumentSource list"
  readerReleased :: bool
  releaseLock_calls :: nat

text \<open>The release in the \<open>done\<close> and \<open>error\<close> cases, and the one in \<open>finally\<close>.\<close>

definition release_and_mark :: "reader_locals \<Rightarrow> reader_locals" where
  "release_and_mark L =
     (if \<not> readerReleased L
      then L\<lparr>releaseLock_calls := releaseLock_calls L + 1, readerReleased := True\<rparr>
      else L)"

definition release_finally :: "reader_locals \<Rightarrow> reader_locals" where
  "release_finally L =
     (if \<not> readerReleased L then L\<lparr>releaseLock_calls := releaseLock_calls L + 1\<rparr> else L)"

text \<open>A line either lets the loop go on or returns from \<open>sendMessage\<close>; the return is
  tagged with the event that caused it.\<close>

datatype flow = Continue | Return_done | Return_error

definition process_line :: "client_env \<Rightarrow> string \<Rightarrow> reader_locals \<times> ChatState \<Rightarrow> flow \<times> reader_locals \<times> ChatState" where
  "process_line ce line LS =
     (case LS of (L, S) \<Rightarrow>
      if startsWith line ''data: '' then
        let jsonStr = trim (slice 6 line) in
        if jsonStr = [] then (Continue, L, S)
        else
          (case cl_JSON_parse ce jsonStr of
             None \<Rightarrow> (Continue, L, S)
           | Some data \<Rightarrow>
               (case ch_type data of
                  T_sources \<Rightarrow>
                    (case cl_JSON_parse_sources ce (ch_content data) of
                       None \<Rightarrow> (Continue, L, S)
                     | Some srcs \<Rightarrow>
                         (Continue, L\<lparr>currentSources := srcs\<rparr>, S\<lparr>sources := srcs\<rparr>))
                | T_text \<Rightarrow>
                    let full = fullAssistantContent L @ ch_content data in
                    (Continue, L\<lparr>fullAssistantContent := full\<rparr>, S\<lparr>streamingContent := full\<rparr>)
                | T_image \<Rightarrow> (Continue, L, S)
                | T_done \<Rightarrow>
                    let assistantMessage =
                          \<lparr>msg_id = cl_id_assistant ce @ ''_assistant'', msg_role = ''assistant'',
                           msg_content = fullAssistantContent L, msg_images = None,
                           msg_metadata = Some \<lparr>md_sources = currentSources L,
                                                md_timestamp = cl_now_iso ce\<rparr>,
                           msg_createdAt = cl_now ce\<rparr>
                    in (Return_done, release_and_mark L,
                        S\<lparr>messages := messages S @ [assistantMessage], isLoading := False,
                          streamingContent := [], sources := []\<rparr>)
                | T_error \<Rightarrow>
                    (Return_error, release_and_mark L,
                     S\<lparr>error := Some (ch_content data), isLoading := False,
                       streamingContent := []\<rparr>)))
      else (Continue, L, S))"

text \<open>\<open>for (const line of lines)\<close>\<close>

fun process_lines :: "client_env \<Rightarrow> string list \<Rightarrow> reader_locals \<times> ChatState \<Rightarrow> flow \<times> reader_locals \<times> ChatState" where
  "process_lines ce [] LS = (Continue, LS)"
| "process_lines ce (line # lines) LS =
     (case process_line ce line LS of
        (Continue, LS') \<Rightarrow> process_lines ce lines LS'
      | (Return_done, LS') \<Rightarrow> (Return_done, LS')
      | (Return_error, LS') \<Rightarrow> (Return_error, LS'))"

text \<open>\<open>while (true)\<close> around \<open>reader.read()\<close>: the four ways out of it.\<close>

datatype loop_exit = Exit_done | Exit_error | Exit_exhausted | Exit_rejected js_error

fun read_loop :: "client_env \<Rightarrow> string list \<Rightarrow> read_end \<Rightarrow> reader_locals \<times> ChatState \<Rightarrow> loop_exit \<times> reader_locals \<times> ChatState" where
  "read_loop ce [] Exhausted LS = (Exit_exhausted, LS)"
| "read_loop ce [] (ReadRejected e) LS = (Exit_rejected e, LS)"
| "read_loop ce (chunk # chunks) ending LS =
     (case process_lines ce (split_newline chunk) LS of
        (Continue, LS') \<Rightarrow> read_loop ce chunks ending LS'
      | (Return_done, LS') \<Rightarrow> (Exit_done, LS')
      | (Return_error, LS') \<Rightarrow> (Exit_error, LS'))"

text \<open>The inner \<open>try { ... } finally { ... }\<close>, from the declaration of the locals on.\<close>

definition read_stream :: "client_env \<Rightarrow> transport \<Rightarrow> ChatState \<Rightarrow> loop_exit \<times> reader_locals \<times> ChatState" where
  "read_stream ce tr S =
     (case read_loop ce (tr_chunks tr) (tr_ending tr)
             (\<lparr>fullAssistantContent = [], currentSources = [], readerReleased = False,
               releaseLock_calls = 0\<rparr>, S) of
        (ex, L, S') \<Rightarrow> (ex, release_finally L, S'))"

text \<open>\<open>s.includes(sub)\<close>\<close>

fun str_includes :: "string \<Rightarrow> string \<Rightarrow> bool" where
  "str_includes [] sub = (sub = [])"
| "str_includes (c # cs) sub = (startsWith (c # cs) sub \<or> str_includes cs sub)"

text \<open>The outer \<open>catch\<close>.\<close>

definition outer_catch :: "js_error \<Rightarrow> ChatState \<Rightarrow> ChatState" where
  "outer_catch e S =
     (if err_name e = ''AbortError''
      then S\<lparr>isLoading := False, streamingContent := []\<rparr>
      else
        let errorMessage =
              (if str_includes (err_message e) ''timeout''
               then ''Request timed out. Please try again.''
               else if str_includes (err_message e) ''network''
               then ''Network error. Please check your connection and try again.''
               else err_message e)
        in S\<lparr>error := Some errorMessage, isLoading := False, streamingContent := []\<rparr>)"

text \<open>The state update made before the request is sent.\<close>

definition begin_request :: "client_env \<Rightarrow> string \<Rightarrow> send_options \<Rightarrow> ChatState \<Rightarrow> ChatState" where
  "begin_request ce content options S =
     (let userMessage =
            \<lparr>msg_id = cl_id_user ce @ ''_user'', msg_role = ''user'', msg_content = trim content,
             msg_images = opt_images options, msg_metadata = None, msg_createdAt = cl_now ce\<rparr>
      in S\<lparr>messages := messages S @ [userMessage], isLoading := True, streamingContent := [],
           sources := [], error := None\<rparr>)"

definition request_body :: "client_env \<Rightarrow> string \<Rightarrow> send_options \<Rightarrow> fetch_body" where
  "request_body ce content options =
     \<lparr>fb_message = trim content, fb_sessionId = cl_id_request ce,
      fb_contextStyle = (case opt_contextStyle options of
                           None \<Rightarrow> ''detailed''
                         | Some s \<Rightarrow> if s = [] then ''detailed'' else s),
      fb_images = (case opt_images options of None \<Rightarrow> [] | Some imgs \<Rightarrow> imgs)\<rparr>"

text \<open>The result of one call: the state it leaves, the requests it issued, and how often it
  called \<open>releaseLock\<close> on the reader it obtained.\<close>

record send_result =
  res_state :: ChatState
  res_requests :: "fetch_body list"
  res_releaseLock_calls :: nat
  res_exit :: "loop_exit option"

text \<open>
  \<open>sendMessage\<close>. The guard reads \<open>state\<close>, the state of the render that created the callback;
  a callback is created anew only when a render sees \<open>state.isLoading\<close> changed. Every
  \<open>setState(prev => ...)\<close> is applied to \<open>prev\<close>, the state current at that time, in the order
  of the calls. The two differ for a call made through a callback of an earlier render. The
  abort controller is seen through its effect only, a rejected \<open>fetch\<close> or read.
\<close>

definition sendMessage :: "client_env \<Rightarrow> string \<Rightarrow> send_options \<Rightarrow> ChatState \<Rightarrow> ChatState \<Rightarrow> send_result" where
  "sendMessage ce content options state prev =
     (if trim content = [] \<or> isLoading state
      then \<lparr>res_state = prev, res_requests = [], res_releaseLock_calls = 0, res_exit = None\<rparr>
      else
        let S1 = begin_request ce content options prev;
            rq = request_body ce content options
        in
        (case cl_fetch ce rq of
           FetchRejected e \<Rightarrow>
             \<lparr>res_state = outer_catch e S1, res_requests = [rq], res_releaseLock_calls = 0,
              res_exit = None\<rparr>
         | FetchResponse ok status rbody \<Rightarrow>
             if \<not> ok
             then \<lparr>res_state = outer_catch (JsError ''Error'' (''HTTP error! status: '' @ show_nat status)) S1,
                   res_requests = [rq], res_releaseLock_calls = 0, res_exit = None\<rparr>
             else
               (case rbody of
                  None \<Rightarrow>
                    \<lparr>res_state = outer_catch (JsError ''Error'' ''Failed to get response reader'') S1,
                     res_requests = [rq], res_releaseLock_calls = 0, res_exit = None\<rparr>
                | Some tr \<Rightarrow>
                    (case read_stream ce tr S1 of
                       (Exit_rejected e, L, S2) \<Rightarrow>
                         \<lparr>res_state = outer_catch e S2, res_requests = [rq],
                          res_releaseLock_calls = releaseLock_calls L,
                          res_exit = Some (Exit_rejected e)\<rparr>
                     | (ex, L, S2) \<Rightarrow>
                         \<lparr>res_state = S2, res_requests = [rq],
                          res_releaseLock_calls = releaseLock_calls L, res_exit = Some ex\<rparr>))))"

section \<open>Observations on a run of the stream route\<close>

text \<open>The contents of the deltas that carry some, in the order of delivery.\<close>

definition delta_contents :: "string option list \<Rightarrow> string list" where
  "delta_contents ds = concat (map (\<lambda>d. case d of None \<Rightarrow> [] | Some c \<Rightarrow> if c \<noteq> [] then [c] else []) ds)"

text \<open>The text event for one delta, the payloads of the text events of a sequence, and the
  two kinds of event that end a stream.\<close>

definition text_chunk :: "string \<Rightarrow> StreamChunk" where
  "text_chunk c = \<lparr>ch_type = T_text, ch_content = c\<rparr>"

definition text_payloads :: "StreamChunk list \<Rightarrow> string list" where
  "text_payloads evs = map ch_content (filter (\<lambda>ev. ch_type ev = T_text) evs)"

definition terminal :: "StreamChunk \<Rightarrow> bool" where
  "terminal ev = (ch_type ev = T_done \<or> ch_type ev = T_error)"

text \<open>
  A run completes naturally when the environment variables are set, the vector store
  answers, the model call is accepted and the iteration over its deltas ends without
  throwing. \<open>run_sources\<close> and \<open>run_deltas\<close> name the sources the run computes and the deltas
  the model delivers to it; \<open>new_rows\<close> are the rows the run added to the table.
\<close>

definition completes_naturally :: "env \<Rightarrow> MessageRow list \<Rightarrow> string \<Rightarrow> string \<Rightarrow> string \<Rightarrow> bool" where
  "completes_naturally e project_messages projectId message contextStyle =
     (\<not> env_missing (env_OPENAI_API_KEY e) \<and> \<not> env_missing (env_PINECONE_API_KEY e)
      \<and> \<not> env_missing (env_PINECONE_INDEX_NAME e)
      \<and> (case env_similaritySearchWithScore e (''project-'' @ projectId) message 4 of
            None \<Rightarrow> False
          | Some scored \<Rightarrow>
              (case env_completions_create e
                      (messagesForLLM contextStyle (sources_of (filtered SIM_THRESHOLD scored))
                         (recentMessages project_messages) message) of
                 None \<Rightarrow> False
               | Some (ds, Completed) \<Rightarrow> True
               | Some (ds, Failed) \<Rightarrow> False)))"

definition run_sources :: "env \<Rightarrow> string \<Rightarrow> string \<Rightarrow> DocumentSource list" where
  "run_sources e projectId message =
     (case env_similaritySearchWithScore e (''project-'' @ projectId) message 4 of
        None \<Rightarrow> []
      | Some scored \<Rightarrow> sources_of (filtered SIM_THRESHOLD scored))"

definition run_deltas :: "env \<Rightarrow> MessageRow list \<Rightarrow> string \<Rightarrow> string \<Rightarrow> string \<Rightarrow> string option list" where
  "run_deltas e project_messages projectId message contextStyle =
     (case env_completions_create e
             (messagesForLLM contextStyle (run_sources e projectId message)
                (recentMessages project_messages) message) of
        None \<Rightarrow> []
      | Some (ds, ending) \<Rightarrow> ds)"

definition new_rows :: "env \<Rightarrow> ctrl \<Rightarrow> MessageRow list" where
  "new_rows e st = drop (length (db_messages (env_db e))) (table st)"

section \<open>Example runs\<close>

text \<open>
  A project with one soft-deleted turn, a vector store that returns two passages scoring
  0.91 and 0.60, and a model that answers in four deltas, two of them without content. The
  stand-in for \<open>JSON.stringify\<close> lists the identifiers of the sources; the one for the
  conversion of numbers and arrays is not met by the example requests, whose members are
  strings.
\<close>

definition ex_doc_a :: Document where
  "ex_doc_a = \<lparr>doc_pageContent = ''Refunds are accepted within 30 days.'',
               doc_metadata = Some [(''documentName'', ''policy.pdf'')]\<rparr>"

definition ex_doc_b :: Document where
  "ex_doc_b = \<lparr>doc_pageContent = ''The office is closed on Sundays.'', doc_metadata = None\<rparr>"

definition ex_deleted_row :: MessageRow where
  "ex_deleted_row =
     \<lparr>row_id = ''s0-user'', row_projectId = ''p1'', row_content = ''Forget this question.'',
      row_role = ''user'', row_createdAt = 7, row_isDeleted = True, row_metadata = None\<rparr>"

definition ex_env :: env where
  "ex_env =
     \<lparr>env_session_user = Some ''u1'',
      env_db = \<lparr>db_projects = [\<lparr>proj_id = ''p1'', proj_userId = ''u1''\<rparr>],
                db_messages = [ex_deleted_row]\<rparr>,
      env_OPENAI_API_KEY = Some ''sk'',
      env_PINECONE_API_KEY = Some ''pk'',
      env_PINECONE_INDEX_NAME = Some ''idx'',
      env_similaritySearchWithScore = (\<lambda>namespace query k. Some [(ex_doc_a, 0.91), (ex_doc_b, 0.60)]),
      env_completions_create = (\<lambda>msgs. Some ([Some ''Hel'', None, Some [], Some ''lo''], Completed)),
      env_insert_ok = True,
      env_now = 100,
      env_stringify = (\<lambda>srcs. concat (map src_id srcs)),
      env_toString = (\<lambda>v. ''0'')\<rparr>"

definition ex_request :: "string \<Rightarrow> request" where
  "ex_request message =
     \<lparr>req_params_id = ''p1'',
      req_body = Some (JObj [(''message'', JStr message), (''sessionId'', JStr ''s1'')])\<rparr>"

text \<open>
  A response for the consumer: three chunks, the second of which is the head of an event cut
  off by the end of the chunk. The stand-in for \<open>JSON.parse\<close> knows the four events of this
  response and throws on everything else.
\<close>

definition ex_events :: "(string \<times> StreamChunk) list" where
  \<open>ex_events =
     [(''{"type":"sources","content":"[]"}'', \<lparr>ch_type = T_sources, ch_content = ''[]''\<rparr>),
      (''{"type":"text","content":"Hel"}'', \<lparr>ch_type = T_text, ch_content = ''Hel''\<rparr>),
      (''{"type":"text","content":"lo"}'', \<lparr>ch_type = T_text, ch_content = ''lo''\<rparr>),
      (''{"type":"done","content":""}'', \<lparr>ch_type = T_done, ch_content = []\<rparr>)]\<close>

definition ex_chunks :: "string list" where
  \<open>ex_chunks =
     [''data: {"type":"sources","content":"[]"}'' @ [CHR 0x0A, CHR 0x0A]
        @ ''data: {"type":"text","content":"Hel"}'' @ [CHR 0x0A, CHR 0x0A],
      ''data: {"type":"te'',
      ''data: {"type":"text","content":"lo"}'' @ [CHR 0x0A, CHR 0x0A]
        @ ''data: {"type":"done","content":""}'' @ [CHR 0x0A, CHR 0x0A]]\<close>

definition ex_client :: client_env where
  "ex_client =
     \<lparr>cl_id_user = ''session_1'', cl_id_request = ''session_2'', cl_id_assistant = ''session_3'',
      cl_now = 5, cl_now_iso = ''2025-07-10T02:44:47.000Z'',
      cl_fetch = (\<lambda>rq. FetchResponse True 200 (Some \<lparr>tr_chunks = ex_chunks, tr_ending = Exhausted\<rparr>)),
      cl_JSON_parse = map_of ex_events,
      cl_JSON_parse_sources = (\<lambda>s. if s = ''[]'' then Some [] else None)\<rparr>"

definition ex_state :: ChatState where
  "ex_state = \<lparr>messages = [], isLoading = False, streamingContent = [], sources = [], error = None\<rparr>"

definition ex_options :: send_options where
  "ex_options = \<lparr>opt_contextStyle = None, opt_images = None\<rparr>"

section \<open>Properties\<close>

subsection \<open>The stream route\<close>

lemma array_filter_eq: "array_filter p xs kept = kept @ filter p xs"
  by (induction xs arbitrary: kept) auto

lemma filtered_eq: "filtered thr scored = filter (\<lambda>e. snd e \<ge> thr) scored"
  by (simp add: filtered_def array_filter_eq case_prod_unfold)

lemma array_map_idx_eq: "array_map_idx f i xs = map (\<lambda>(k, x). f x k) (enumerate i xs)"
  by (induction xs arbitrary: i) auto

lemma length_array_map_idx [simp]: "length (array_map_idx f i xs) = length xs"
  by (simp add: array_map_idx_eq)

lemma stream_deltas_eq:
  "stream_deltas ds full st =
     (full @ concat (delta_contents ds), st\<lparr>emitted := emitted st @ map text_chunk (delta_contents ds)\<rparr>)"
proof (induction ds full st rule: stream_deltas.induct)
  case (1 fullResponse st)
  then show ?case by (simp add: delta_contents_def)
next
  case (2 ds fullResponse st)
  then show ?case by (simp add: delta_contents_def)
next
  case (3 c ds fullResponse st)
  then show ?case by (simp add: delta_contents_def sendChunk_def text_chunk_def)
qed

lemma push_history_eq:
  "push_history ms msgs = msgs @ map (\<lambda>m. \<lparr>llm_role = row_role m, llm_content = row_content m\<rparr>) ms"
  by (induction ms arbitrary: msgs) auto

lemma open_stream_completed:
  assumes "completes_naturally e pm pid msg style"
  shows "open_stream e pm pid msg sid style =
           \<lparr>emitted = \<lparr>ch_type = T_sources, ch_content = env_stringify e (run_sources e pid msg)\<rparr>
                       # map text_chunk (delta_contents (run_deltas e pm pid msg style))
                       @ [\<lparr>ch_type = T_done, ch_content = []\<rparr>],
            closed = True,
            table = (if env_insert_ok e
                     then db_messages (env_db e)
                          @ map (insert_row (env_now e))
                              (exchange_rows sid pid msg
                                 (concat (delta_contents (run_deltas e pm pid msg style))))
                     else db_messages (env_db e))\<rparr>"
  using assms
  by (auto simp: completes_naturally_def open_stream_def start_def run_sources_def run_deltas_def
        stream_deltas_eq sendDone_def sendChunk_def save_conversation_def createMany_def Let_def
      split: option.splits stream_end.splits prod.splits)

lemma text_payloads_simps [simp]:
  "text_payloads [] = []"
  "text_payloads (ev # evs) = (if ch_type ev = T_text then ch_content ev # text_payloads evs else text_payloads evs)"
  "text_payloads (xs @ ys) = text_payloads xs @ text_payloads ys"
  "text_payloads (map text_chunk cs) = cs"
  by (simp_all add: text_payloads_def text_chunk_def comp_def)

lemma map_type_text [simp]: "map ch_type (map text_chunk cs) = replicate (length cs) T_text"
  by (simp add: text_chunk_def comp_def map_replicate_const)

lemma filter_terminal_text [simp]: "filter terminal (map text_chunk cs) = []"
  by (simp add: terminal_def text_chunk_def filter_empty_conv)

lemma open_stream_failed:
  assumes "\<not> completes_naturally e pm pid msg style"
  shows "\<exists>pre err. emitted (open_stream e pm pid msg sid style) = pre @ [\<lparr>ch_type = T_error, ch_content = err\<rparr>]
           \<and> filter terminal pre = []
           \<and> closed (open_stream e pm pid msg sid style)
           \<and> table (open_stream e pm pid msg sid style) = db_messages (env_db e)"
  using assms
  by (auto simp: completes_naturally_def open_stream_def start_def 
        stream_deltas_eq sendError_def sendChunk_def Let_def terminal_def
      split: option.splits stream_end.splits prod.splits)

lemma ex_pm: "include_messages [ex_deleted_row] ''p1'' = [ex_deleted_row]"
  by (simp add: include_messages_def ex_deleted_row_def)

lemma ex_find: "findFirst_project (env_db ex_env) ''p1'' ''u1'' = Some (\<lparr>proj_id = ''p1'', proj_userId = ''u1''\<rparr>, [ex_deleted_row])"
  by (simp add: findFirst_project_def ex_env_def ex_pm)

lemma ex_completes: "completes_naturally ex_env pm ''p1'' msg style"
  by (simp add: completes_naturally_def ex_env_def env_missing_def)

lemma ex_sources: "run_sources ex_env ''p1'' msg =
   [\<lparr>src_id = ''src-0'', src_name = ''policy.pdf'', src_pageContent = ''Refunds are accepted within 30 days.'',
     src_metadata = Some [(''documentName'', ''policy.pdf'')]\<rparr>]"
  by (simp add: run_sources_def ex_env_def filtered_def SIM_THRESHOLD_def sources_of_def source_name_def ex_doc_a_def ex_doc_b_def)

lemma ex_deltas: "delta_contents (run_deltas ex_env pm ''p1'' msg style) = [''Hel'', ''lo'']"
  by (simp add: run_deltas_def ex_env_def delta_contents_def)

lemma emitted_save_conversation [simp]: "emitted (save_conversation e data st) = emitted st"
  by (simp add: save_conversation_def createMany_def)

lemma hd_open_stream_sources:
  assumes "\<not> env_missing (env_OPENAI_API_KEY e)" "\<not> env_missing (env_PINECONE_API_KEY e)"
    "\<not> env_missing (env_PINECONE_INDEX_NAME e)"
    "env_similaritySearchWithScore e (''project-'' @ pid) msg 4 = Some scored"
  shows "hd (emitted (open_stream e pm pid msg sid style)) =
           \<lparr>ch_type = T_sources, ch_content = env_stringify e (sources_of (filtered SIM_THRESHOLD scored))\<rparr>"
  using assms
  by (auto simp: open_stream_def start_def stream_deltas_eq sendError_def sendDone_def sendChunk_def
        Let_def split: option.splits stream_end.splits prod.splits)

text \<open>
  Claim C2. For every sequence of scored candidates and every threshold, the filter returns
  exactly the entries whose score is at least the threshold, in the order of the input. With
  the route's threshold 0.75 and two candidates scoring 0.91 and 0.60 only the first one is
  kept, and the content of the sources event is the serialisation of a one-element array.
\<close>

theorem relevance_filter_threshold:
  "filtered threshold scored = [entry \<leftarrow> scored. snd entry \<ge> threshold]
   \<and> subseq (filtered threshold scored) scored
   \<and> filtered 0.75 [(a, 0.91), (b, 0.60)] = [(a, 0.91)]
   \<and> (\<not> env_missing (env_OPENAI_API_KEY e) \<and> \<not> env_missing (env_PINECONE_API_KEY e)
        \<and> \<not> env_missing (env_PINECONE_INDEX_NAME e)
        \<and> env_similaritySearchWithScore e (''project-'' @ pid) msg 4 = Some [(a, 0.91), (b, 0.60)]
      \<longrightarrow> SIM_THRESHOLD = 0.75
          \<and> hd (emitted (open_stream e pm pid msg sid style)) =
              \<lparr>ch_type = T_sources,
               ch_content = env_stringify e
                 [\<lparr>src_id = ''src-0'', src_name = source_name a,
                   src_pageContent = doc_pageContent a, src_metadata = doc_metadata a\<rparr>]\<rparr>)"
proof -
  have two: "filtered 0.75 [(a, 0.91), (b, 0.60)] = [(a, 0.91)]"
    by (simp add: filtered_eq)
  have one: "sources_of [(a, 0.91)] =
      [\<lparr>src_id = ''src-0'', src_name = source_name a,
        src_pageContent = doc_pageContent a, src_metadata = doc_metadata a\<rparr>]"
    by (simp add: sources_of_def)
  show ?thesis
    using two one
    by (auto simp: filtered_eq hd_open_stream_sources SIM_THRESHOLD_def)
qed

theorem relevance_filter_threshold_witness:
  "hd (emitted (open_stream ex_env [] ''p1'' ''What is the refund policy?'' ''s1'' ''detailed'')) =
     \<lparr>ch_type = T_sources, ch_content = ''src-0''\<rparr>"
proof -
  have keys: "\<not> env_missing (env_OPENAI_API_KEY ex_env) \<and> \<not> env_missing (env_PINECONE_API_KEY ex_env)
        \<and> \<not> env_missing (env_PINECONE_INDEX_NAME ex_env)
        \<and> env_similaritySearchWithScore ex_env (''project-'' @ ''p1'') ''What is the refund policy?'' 4
            = Some [(ex_doc_a, 0.91), (ex_doc_b, 0.60)]"
    by (simp add: ex_env_def env_missing_def)
  have str: "env_stringify ex_env [\<lparr>src_id = ''src-0'', src_name = source_name ex_doc_a,
                   src_pageContent = doc_pageContent ex_doc_a, src_metadata = doc_metadata ex_doc_a\<rparr>] = ''src-0''"
    by (simp add: ex_env_def)
  show ?thesis
    using keys str
      relevance_filter_threshold [of 0 "[]" ex_doc_a ex_doc_b ex_env "''p1''"
        "''What is the refund policy?''" "[]" "''s1''" "''detailed''"]
    by simp
qed

lemma map_type_text_comp [simp]:
  "map (ch_type \<circ> text_chunk) cs = replicate (length cs) T_text"
  by (simp add: text_chunk_def comp_def map_replicate_const)

lemma last_open_stream_completed: 
  assumes "completes_naturally e pm pid msg style"
  shows "last (emitted (open_stream e pm pid msg sid style)) = \<lparr>ch_type = T_done, ch_content = []\<rparr>"
  by (simp add: open_stream_completed[OF assms])

lemma new_rows_completed:
  assumes "completes_naturally e pm pid msg style"
  shows "new_rows e (open_stream e pm pid msg sid style) =
          (if env_insert_ok e
           then map (insert_row (env_now e))
                  (exchange_rows sid pid msg (concat (delta_contents (run_deltas e pm pid msg style))))
           else [])"
  by (simp add: open_stream_completed[OF assms] new_rows_def)

text \<open>
  Claim C1. A stream that runs to natural completion emits one sources event, then one text
  event for each delta with content, in the order the model delivered them, then one done
  event; when the insert succeeds, the stored assistant content is the concatenation of the
  text payloads. A stream that does not complete emits an error event as its last event and
  no other done or error event. In both cases the stream is closed.
\<close>

theorem stream_event_sequence:
  "(completes_naturally e pm pid msg style \<longrightarrow>
      map ch_type (emitted (open_stream e pm pid msg sid style)) =
        T_sources # replicate (length (text_payloads (emitted (open_stream e pm pid msg sid style)))) T_text @ [T_done]
      \<and> text_payloads (emitted (open_stream e pm pid msg sid style)) =
          delta_contents (run_deltas e pm pid msg style)
      \<and> (env_insert_ok e \<longrightarrow>
           map row_content (filter (\<lambda>r. row_role r = ''assistant'')
                              (new_rows e (open_stream e pm pid msg sid style))) =
             [concat (text_payloads (emitted (open_stream e pm pid msg sid style)))]))
   \<and> (\<not> completes_naturally e pm pid msg style \<longrightarrow>
      emitted (open_stream e pm pid msg sid style) \<noteq> []
      \<and> ch_type (last (emitted (open_stream e pm pid msg sid style))) = T_error
      \<and> filter terminal (emitted (open_stream e pm pid msg sid style)) =
          [last (emitted (open_stream e pm pid msg sid style))])
   \<and> closed (open_stream e pm pid msg sid style)"
proof (cases "completes_naturally e pm pid msg style")
  case True
  note run = open_stream_completed [OF True, of sid]
  have shape: "map ch_type (emitted (open_stream e pm pid msg sid style)) =
        T_sources # replicate (length (text_payloads (emitted (open_stream e pm pid msg sid style)))) T_text @ [T_done]"
    by (simp add: run)
  have texts: "text_payloads (emitted (open_stream e pm pid msg sid style)) =
          delta_contents (run_deltas e pm pid msg style)"
    by (simp add: run)
  have stored: "env_insert_ok e \<Longrightarrow>
           map row_content (filter (\<lambda>r. row_role r = ''assistant'')
                              (new_rows e (open_stream e pm pid msg sid style))) =
             [concat (text_payloads (emitted (open_stream e pm pid msg sid style)))]"
    by (simp add: new_rows_completed [OF True] texts exchange_rows_def insert_row_def)
  have "closed (open_stream e pm pid msg sid style)"
    by (simp add: run)
  with True shape texts stored show ?thesis by blast
next
  case False
  from open_stream_failed [OF False, of sid]
  obtain pre err where
    ev: "emitted (open_stream e pm pid msg sid style) = pre @ [\<lparr>ch_type = T_error, ch_content = err\<rparr>]"
    and pre: "filter terminal pre = []"
    and cl: "closed (open_stream e pm pid msg sid style)"
    by blast
  have "filter terminal (emitted (open_stream e pm pid msg sid style)) =
          [last (emitted (open_stream e pm pid msg sid style))]"
    by (simp add: ev pre terminal_def)
  with False ev cl show ?thesis by simp
qed

text \<open>The example run for C1: two deltas with content, one without, one empty.\<close>

theorem stream_event_sequence_witness:
  "map ch_type (emitted (open_stream ex_env [] ''p1'' ''hi'' ''s1'' ''detailed'')) =
     [T_sources, T_text, T_text, T_done]
   \<and> text_payloads (emitted (open_stream ex_env [] ''p1'' ''hi'' ''s1'' ''detailed'')) = [''Hel'', ''lo'']
   \<and> map row_content (filter (\<lambda>r. row_role r = ''assistant'')
         (new_rows ex_env (open_stream ex_env [] ''p1'' ''hi'' ''s1'' ''detailed''))) = [''Hello'']
   \<and> ch_type (last (emitted (open_stream (ex_env\<lparr>env_OPENAI_API_KEY := None\<rparr>) [] ''p1'' ''hi'' ''s1'' ''detailed''))) = T_error"
proof -
  have ok: "env_insert_ok ex_env"
    by (simp add: ex_env_def)
  have bad: "\<not> completes_naturally (ex_env\<lparr>env_OPENAI_API_KEY := None\<rparr>) [] ''p1'' ''hi'' ''detailed''"
    by (simp add: completes_naturally_def env_missing_def)
  show ?thesis
    using ok bad ex_completes [of "[]" "''hi''" "''detailed''"] ex_deltas [of "[]" "''hi''" "''detailed''"]
      stream_event_sequence [of ex_env "[]" "''p1''" "''hi''" "''detailed''" "''s1''"]
      stream_event_sequence [of "ex_env\<lparr>env_OPENAI_API_KEY := None\<rparr>" "[]" "''p1''" "''hi''" "''detailed''" "''s1''"]
    by simp
qed


text \<open>
  Claim C7. On natural completion the insert is given exactly two rows, a user turn
  \<open>sessionId-user\<close> and an assistant turn \<open>sessionId-assistant\<close>, and a successful insert adds
  these two rows and nothing else. When the insert fails the table is unchanged, the last
  event is still done, and no error event is emitted.
\<close>

theorem persistence_two_turns_failure_swallowed:
  assumes "completes_naturally e pm pid msg style"
  shows "exchange_rows sid pid msg full =
           [\<lparr>new_id = sid @ ''-user'', new_projectId = pid, new_content = msg, new_role = ''user''\<rparr>,
            \<lparr>new_id = sid @ ''-assistant'', new_projectId = pid, new_content = full,
             new_role = ''assistant''\<rparr>]
       \<and> (env_insert_ok e \<longrightarrow>
            take (length (db_messages (env_db e))) (table (open_stream e pm pid msg sid style)) =
              db_messages (env_db e)
            \<and> map (\<lambda>r. (row_id r, row_role r)) (new_rows e (open_stream e pm pid msg sid style)) =
                [(sid @ ''-user'', ''user''), (sid @ ''-assistant'', ''assistant'')])
       \<and> (\<not> env_insert_ok e \<longrightarrow>
            table (open_stream e pm pid msg sid style) = db_messages (env_db e))
       \<and> last (emitted (open_stream e pm pid msg sid style)) = \<lparr>ch_type = T_done, ch_content = []\<rparr>
       \<and> filter (\<lambda>ev. ch_type ev = T_error) (emitted (open_stream e pm pid msg sid style)) = []"
proof -
  note run = open_stream_completed [OF assms, of sid]
  have no_error: "filter (\<lambda>ev. ch_type ev = T_error) (emitted (open_stream e pm pid msg sid style)) = []"
    by (simp add: run text_chunk_def filter_empty_conv)
  show ?thesis
    using no_error
    by (simp add: last_open_stream_completed [OF assms] new_rows_completed [OF assms]
        exchange_rows_def insert_row_def) (simp add: run)
qed

text \<open>The example run for C7, with a working and with a failing insert.\<close>

theorem persistence_two_turns_failure_swallowed_witness:
  "map (\<lambda>r. (row_id r, row_role r))
     (new_rows ex_env (open_stream ex_env [] ''p1'' ''hi'' ''s1'' ''detailed'')) =
     [(''s1-user'', ''user''), (''s1-assistant'', ''assistant'')]
   \<and> table (open_stream (ex_env\<lparr>env_insert_ok := False\<rparr>) [] ''p1'' ''hi'' ''s1'' ''detailed'') =
       [ex_deleted_row]
   \<and> last (emitted (open_stream (ex_env\<lparr>env_insert_ok := False\<rparr>) [] ''p1'' ''hi'' ''s1'' ''detailed'')) =
       \<lparr>ch_type = T_done, ch_content = []\<rparr>"
proof -
  have ok: "env_insert_ok ex_env" "db_messages (env_db ex_env) = [ex_deleted_row]"
    by (simp_all add: ex_env_def)
  have c2: "completes_naturally (ex_env\<lparr>env_insert_ok := False\<rparr>) [] ''p1'' ''hi'' ''detailed''"
    by (simp add: completes_naturally_def ex_env_def env_missing_def)
  show ?thesis
    using ok
      persistence_two_turns_failure_swallowed [OF ex_completes, where pm = "[]" and msg = "''hi''"
        and style = "''detailed''" and sid = "''s1''" and full = "[]"]
      persistence_two_turns_failure_swallowed [OF c2, where sid = "''s1''" and full = "[]"]
    by simp
qed

text \<open>
  Claim C4 as stated fails: in the example run one source passes the filter, and both stored
  rows have no metadata.
\<close>

theorem stored_assistant_metadata_counterexample:
  "map (\<lambda>r. (row_id r, row_content r, row_metadata r))
     (new_rows ex_env (open_stream ex_env [] ''p1'' ''What is the refund policy?'' ''s1'' ''detailed'')) =
     [(''s1-user'', ''What is the refund policy?'', None), (''s1-assistant'', ''Hello'', None)]
   \<and> length (run_sources ex_env ''p1'' ''What is the refund policy?'') = 1"
  by (simp add: new_rows_completed [OF ex_completes] ex_deltas ex_sources exchange_rows_def
      insert_row_def) (simp add: ex_env_def)

text \<open>
  Claim C4, amended. The two rows stored at stream completion hold the identifier, the
  project, the content and the role, and the column defaults for the rest: their metadata is
  null. The filtered sources are sent in the sources event, not stored.
\<close>

theorem stored_turns_without_metadata:
  assumes "completes_naturally e pm pid msg style" and "env_insert_ok e"
  shows "new_rows e (open_stream e pm pid msg sid style) =
           [\<lparr>row_id = sid @ ''-user'', row_projectId = pid, row_content = msg, row_role = ''user'',
             row_createdAt = env_now e, row_isDeleted = False, row_metadata = None\<rparr>,
            \<lparr>row_id = sid @ ''-assistant'', row_projectId = pid,
             row_content = concat (text_payloads (emitted (open_stream e pm pid msg sid style))),
             row_role = ''assistant'', row_createdAt = env_now e, row_isDeleted = False,
             row_metadata = None\<rparr>]
       \<and> hd (emitted (open_stream e pm pid msg sid style)) =
           \<lparr>ch_type = T_sources, ch_content = env_stringify e (run_sources e pid msg)\<rparr>"
  using assms(2)
  by (simp add: new_rows_completed [OF assms(1)] exchange_rows_def insert_row_def)
     (simp add: open_stream_completed [OF assms(1)])

text \<open>The example run for C4.\<close>

theorem stored_turns_without_metadata_witness:
  "map row_metadata (new_rows ex_env (open_stream ex_env [] ''p1'' ''hi'' ''s1'' ''detailed'')) =
     [None, None]"
proof -
  have ok: "env_insert_ok ex_env"
    by (simp add: ex_env_def)
  show ?thesis
    using stored_turns_without_metadata [OF ex_completes ok, where pm = "[]" and msg = "''hi''"
        and style = "''detailed''" and sid = "''s1''"]
    by simp
qed


lemma startsWith_append: "startsWith (s @ b) s"
  by (simp add: startsWith_def)

lemma str_includes_self: "str_includes (s @ b) s"
proof (cases "s @ b")
  case Nil
  then show ?thesis by simp
next
  case (Cons c cs)
  have "startsWith (c # cs) s"
    using startsWith_append [of s b] by (simp add: Cons)
  then show ?thesis by (simp add: Cons)
qed

lemma str_includes_mid: "str_includes (a @ s @ b) s"
proof (induction a)
  case Nil
  show ?case by (simp add: str_includes_self)
next
  case (Cons x a)
  then show ?case by simp
qed

lemma recentMessages_include:
  "recentMessages (include_messages tbl pid) =
     drop (length (sort_key row_createdAt [m \<leftarrow> tbl. row_projectId m = pid]) - 6)
       (sort_key row_createdAt [m \<leftarrow> tbl. row_projectId m = pid])"
proof -
  let ?asc = "sort_key row_createdAt [m \<leftarrow> tbl. row_projectId m = pid]"
  have "recentMessages (include_messages tbl pid) = rev (take 6 (rev ?asc))"
    by (simp add: recentMessages_def include_messages_def)
  also have "\<dots> = drop (length ?asc - 6) ?asc"
    by (simp add: rev_take)
  finally show ?thesis .
qed

lemma sorted_recentMessages:
  "sorted (map row_createdAt (recentMessages (include_messages tbl pid)))"
  unfolding recentMessages_include drop_map [symmetric]
  by (rule sorted_wrt_drop) simp

lemma messagesForLLM_eq:
  "messagesForLLM style srcs recent msg =
     [\<lparr>llm_role = ''system'', llm_content = baseSystem style\<rparr>]
     @ (if srcs = [] then []
        else [\<lparr>llm_role = ''system'', llm_content = ''Context:'' @ [CHR 0x0A] @ contextText srcs\<rparr>])
     @ map (\<lambda>m. \<lparr>llm_role = row_role m, llm_content = row_content m\<rparr>) recent
     @ [\<lparr>llm_role = ''user'', llm_content = msg\<rparr>]"
  by (simp add: messagesForLLM_def push_history_eq)

text \<open>
  Claim C3. The message list is: the system message, whose text contains the style; then,
  only for a non-empty context, one system message with the passages numbered from 1 and
  separated by a line of three dashes; then the six most recent turns of the project, oldest
  first, with their stored roles; then the new user message. With no context and no history
  the list is the system message followed by the user message.
\<close>

theorem prompt_composer_order:
  "messagesForLLM style srcs (recentMessages pm) msg =
     [\<lparr>llm_role = ''system'', llm_content = baseSystem style\<rparr>]
     @ (if srcs = [] then []
        else [\<lparr>llm_role = ''system'',
               llm_content = ''Context:'' @ [CHR 0x0A]
                 @ join ([CHR 0x0A] @ ''---'' @ [CHR 0x0A])
                     (map (\<lambda>(i, s). ''['' @ show_nat (i + 1) @ ''] '' @ src_pageContent s)
                        (enumerate 0 srcs))\<rparr>])
     @ map (\<lambda>m. \<lparr>llm_role = row_role m, llm_content = row_content m\<rparr>) (rev (take 6 pm))
     @ [\<lparr>llm_role = ''user'', llm_content = msg\<rparr>]
   \<and> str_includes (baseSystem style) style
   \<and> recentMessages (include_messages tbl pid) =
       drop (length (sort_key row_createdAt [m \<leftarrow> tbl. row_projectId m = pid]) - 6)
         (sort_key row_createdAt [m \<leftarrow> tbl. row_projectId m = pid])
   \<and> sorted (map row_createdAt (recentMessages (include_messages tbl pid)))
   \<and> messagesForLLM style [] (recentMessages []) msg =
       [\<lparr>llm_role = ''system'', llm_content = baseSystem style\<rparr>,
        \<lparr>llm_role = ''user'', llm_content = msg\<rparr>]"
proof -
  have names: "str_includes (baseSystem style) style"
    unfolding baseSystem_def by (rule str_includes_mid)
  have ctx: "contextText srcs =
      join ([CHR 0x0A] @ ''---'' @ [CHR 0x0A])
        (map (\<lambda>(i, s). ''['' @ show_nat (i + 1) @ ''] '' @ src_pageContent s) (enumerate 0 srcs))"
    by (simp add: contextText_def array_map_idx_eq)
  have empty: "messagesForLLM style [] (recentMessages []) msg =
       [\<lparr>llm_role = ''system'', llm_content = baseSystem style\<rparr>,
        \<lparr>llm_role = ''user'', llm_content = msg\<rparr>]"
    by (simp add: messagesForLLM_eq recentMessages_def)
  have order: "messagesForLLM style srcs (recentMessages pm) msg =
     [\<lparr>llm_role = ''system'', llm_content = baseSystem style\<rparr>]
     @ (if srcs = [] then []
        else [\<lparr>llm_role = ''system'',
               llm_content = ''Context:'' @ [CHR 0x0A]
                 @ join ([CHR 0x0A] @ ''---'' @ [CHR 0x0A])
                     (map (\<lambda>(i, s). ''['' @ show_nat (i + 1) @ ''] '' @ src_pageContent s)
                        (enumerate 0 srcs))\<rparr>])
     @ map (\<lambda>m. \<lparr>llm_role = row_role m, llm_content = row_content m\<rparr>) (rev (take 6 pm))
     @ [\<lparr>llm_role = ''user'', llm_content = msg\<rparr>]"
    unfolding messagesForLLM_eq ctx recentMessages_def by (rule refl)
  from order names recentMessages_include sorted_recentMessages empty
  show ?thesis by blast
qed

text \<open>The example prompt for C3: two passages and one turn of history.\<close>

theorem prompt_composer_order_witness:
  "messagesForLLM ''concise''
     [\<lparr>src_id = ''src-0'', src_name = ''a.pdf'', src_pageContent = ''Alpha'', src_metadata = None\<rparr>,
      \<lparr>src_id = ''src-1'', src_name = ''b.pdf'', src_pageContent = ''Beta'', src_metadata = None\<rparr>]
     (recentMessages [ex_deleted_row]) ''hi'' =
     [\<lparr>llm_role = ''system'', llm_content = baseSystem ''concise''\<rparr>,
      \<lparr>llm_role = ''system'',
       llm_content = ''Context:'' @ [CHR 0x0A] @ ''[1] Alpha'' @ [CHR 0x0A] @ ''---'' @ [CHR 0x0A]
                     @ ''[2] Beta''\<rparr>,
      \<lparr>llm_role = ''user'', llm_content = ''Forget this question.''\<rparr>,
      \<lparr>llm_role = ''user'', llm_content = ''hi''\<rparr>]"
proof -
  have row: "row_role ex_deleted_row = ''user''" "row_content ex_deleted_row = ''Forget this question.''"
    by (simp_all add: ex_deleted_row_def)
  show ?thesis
    using row
      prompt_composer_order [where style = "''concise''" and pm = "[ex_deleted_row]" and msg = "''hi''"
        and tbl = "[]" and pid = "[]"
        and srcs = "[\<lparr>src_id = ''src-0'', src_name = ''a.pdf'', src_pageContent = ''Alpha'', src_metadata = None\<rparr>,
          \<lparr>src_id = ''src-1'', src_name = ''b.pdf'', src_pageContent = ''Beta'', src_metadata = None\<rparr>]"]
    by (simp add: enumerate_eq_zip)
qed








lemma valid_message_iff: "(truthy v \<and> typeof_string v) = (\<exists>s. v = Some (JStr s) \<and> s \<noteq> [])"
  by (cases v rule: truthy.cases) simp_all

text \<open>
  Claim C6, amended. For a caller who is authenticated and owns the project, and a body that
  parses to a value other than \<open>null\<close>, the request is answered with status 400 and no stream
  exactly when the message is not a non-empty string; no trimming is applied, so any
  non-empty string opens the stream. The body \<open>null\<close> is answered with status 500, also
  without a stream.
\<close>

theorem validation_rejects_missing_message:
  assumes "env_session_user e = Some uid"
    and "findFirst_project (env_db e) (req_params_id req) uid = Some (p, pm)"
    and "req_body req = Some b"
  shows "(b \<noteq> JNull \<and> (\<exists>s. get_prop b ''message'' = Some (JStr s) \<and> s \<noteq> []) \<longrightarrow>
            POST e req =
              EventStream
                (open_stream e pm (req_params_id req) (str_of (get_prop b ''message''))
                   (js_String (env_toString e) (get_prop b ''sessionId''))
                   (case get_prop b ''contextStyle'' of
                      None \<Rightarrow> ''detailed''
                    | Some v \<Rightarrow> js_String (env_toString e) (Some v))))
       \<and> (b \<noteq> JNull \<and> \<not> (\<exists>s. get_prop b ''message'' = Some (JStr s) \<and> s \<noteq> []) \<longrightarrow>
            POST e req = Response ''Message is required'' 400)
       \<and> (b = JNull \<longrightarrow> POST e req = Response ''Internal server error'' 500)"
proof -
  have style: "js_String (env_toString e)
                 (case get_prop b ''contextStyle'' of
                    None \<Rightarrow> Some (JStr ''detailed'')
                  | Some v \<Rightarrow> Some v) =
               (case get_prop b ''contextStyle'' of
                  None \<Rightarrow> ''detailed''
                | Some v \<Rightarrow> js_String (env_toString e) (Some v))"
    by (cases "get_prop b ''contextStyle''") simp_all
  have opens: "POST e req =
              EventStream
                (open_stream e pm (req_params_id req) (str_of (get_prop b ''message''))
                   (js_String (env_toString e) (get_prop b ''sessionId''))
                   (case get_prop b ''contextStyle'' of
                      None \<Rightarrow> ''detailed''
                    | Some v \<Rightarrow> js_String (env_toString e) (Some v)))"
    if "b \<noteq> JNull" and "\<exists>s. get_prop b ''message'' = Some (JStr s) \<and> s \<noteq> []"
  proof -
    from that(2) have "truthy (get_prop b ''message'') \<and> typeof_string (get_prop b ''message'')"
      by (simp add: valid_message_iff)
    with assms that(1) show ?thesis
      by (simp add: POST_def Let_def style)
  qed
  have rejects: "POST e req = Response ''Message is required'' 400"
    if "b \<noteq> JNull" and "\<not> (\<exists>s. get_prop b ''message'' = Some (JStr s) \<and> s \<noteq> [])"
  proof -
    from that(2) have "\<not> (truthy (get_prop b ''message'') \<and> typeof_string (get_prop b ''message''))"
      by (simp add: valid_message_iff)
    with assms that(1) show ?thesis
      by (auto simp: POST_def Let_def)
  qed
  have null: "POST e req = Response ''Internal server error'' 500" if "b = JNull"
    using assms that by (simp add: POST_def Let_def)
  from opens rejects null show ?thesis by blast
qed

text \<open>The example requests for C6: the empty message, and the body \<open>null\<close>.\<close>

theorem validation_rejects_missing_message_witness:
  "POST ex_env (ex_request []) = Response ''Message is required'' 400
   \<and> POST ex_env \<lparr>req_params_id = ''p1'', req_body = Some JNull\<rparr> =
       Response ''Internal server error'' 500"
proof -
  have a: "env_session_user ex_env = Some ''u1''"
    by (simp add: ex_env_def)
  have b: "findFirst_project (env_db ex_env) (req_params_id (ex_request [])) ''u1'' =
             Some (\<lparr>proj_id = ''p1'', proj_userId = ''u1''\<rparr>, [ex_deleted_row])"
    by (simp add: ex_request_def ex_find)
  have c: "req_body (ex_request []) = Some (JObj [(''message'', JStr []), (''sessionId'', JStr ''s1'')])"
    by (simp add: ex_request_def)
  have b': "findFirst_project (env_db ex_env)
              (req_params_id \<lparr>req_params_id = ''p1'', req_body = Some JNull\<rparr>) ''u1'' =
             Some (\<lparr>proj_id = ''p1'', proj_userId = ''u1''\<rparr>, [ex_deleted_row])"
    by (simp add: ex_find)
  have c': "req_body \<lparr>req_params_id = ''p1'', req_body = Some JNull\<rparr> = Some JNull"
    by simp
  show ?thesis
    using validation_rejects_missing_message [OF a b c]
      validation_rejects_missing_message [OF a b' c']
    by simp
qed

text \<open>
  Claim C6 as stated fails: a message of three spaces is empty after trimming, and the
  request opens the stream and runs it to the done event.
\<close>

theorem whitespace_message_counterexample:
  "trim ''   '' = []
   \<and> POST ex_env (ex_request ''   '') =
       EventStream (open_stream ex_env [ex_deleted_row] ''p1'' ''   '' ''s1'' ''detailed'')
   \<and> map ch_type (emitted (open_stream ex_env [ex_deleted_row] ''p1'' ''   '' ''s1'' ''detailed'')) =
       [T_sources, T_text, T_text, T_done]"
proof -
  have t: "trim ''   '' = []"
    by (simp add: trim_def is_ws_def)
  have p: "POST ex_env (ex_request ''   '') =
       EventStream (open_stream ex_env [ex_deleted_row] ''p1'' ''   '' ''s1'' ''detailed'')"
  proof -
    have u: "env_session_user ex_env = Some ''u1''"
      by (simp add: ex_env_def)
    show ?thesis
      by (simp add: POST_def ex_request_def Let_def u ex_find)
  qed
  have s: "map ch_type (emitted (open_stream ex_env [ex_deleted_row] ''p1'' ''   '' ''s1'' ''detailed'')) =
       [T_sources, T_text, T_text, T_done]"
    by (simp add: open_stream_completed [OF ex_completes] ex_deltas text_chunk_def)
  from t p s show ?thesis by blast
qed

subsection \<open>The consumer hook\<close>

lemma process_line_flags:
  assumes "process_line ce line (L, S) = (fl, L', S')"
  shows "(fl = Continue \<longrightarrow> readerReleased L' = readerReleased L
            \<and> releaseLock_calls L' = releaseLock_calls L \<and> isLoading S' = isLoading S)
       \<and> (fl \<noteq> Continue \<longrightarrow> \<not> readerReleased L \<longrightarrow>
            readerReleased L' \<and> releaseLock_calls L' = releaseLock_calls L + 1)"
  using assms
  by (auto simp: process_line_def Let_def release_and_mark_def
      split: if_splits option.splits chunk_type.splits)

lemma process_lines_flags:
  assumes "process_lines ce lines (L, S) = (fl, L', S')"
  shows "(fl = Continue \<longrightarrow> readerReleased L' = readerReleased L
            \<and> releaseLock_calls L' = releaseLock_calls L \<and> isLoading S' = isLoading S)
       \<and> (fl \<noteq> Continue \<longrightarrow> \<not> readerReleased L \<longrightarrow>
            readerReleased L' \<and> releaseLock_calls L' = releaseLock_calls L + 1)"
  using assms
proof (induction lines arbitrary: L S)
  case Nil
  then show ?case by simp
next
  case (Cons line lines)
  obtain f1 L1 S1 where step: "process_line ce line (L, S) = (f1, L1, S1)"
    by (cases "process_line ce line (L, S)") auto
  note one = process_line_flags [OF step]
  show ?case
  proof (cases f1)
    case Continue
    with Cons.prems step have "process_lines ce lines (L1, S1) = (fl, L', S')"
      by simp
    from Cons.IH [OF this] one Continue show ?thesis
      by simp
  next
    case Return_done
    with Cons.prems step have "fl = Return_done" "L' = L1" "S' = S1"
      by simp_all
    with one Return_done show ?thesis by simp
  next
    case Return_error
    with Cons.prems step have "fl = Return_error" "L' = L1" "S' = S1"
      by simp_all
    with one Return_error show ?thesis by simp
  qed
qed

lemma read_loop_flags:
  assumes "read_loop ce chunks ending (L, S) = (ex, L', S')" and "\<not> readerReleased L"
  shows "if ex = Exit_done \<or> ex = Exit_error
         then readerReleased L' \<and> releaseLock_calls L' = releaseLock_calls L + 1
         else \<not> readerReleased L' \<and> releaseLock_calls L' = releaseLock_calls L"
  using assms
proof (induction chunks arbitrary: L S)
  case Nil
  then show ?case by (cases ending) auto
next
  case (Cons chunk chunks)
  obtain f1 L1 S1 where step: "process_lines ce (split_newline chunk) (L, S) = (f1, L1, S1)"
    by (cases "process_lines ce (split_newline chunk) (L, S)") auto
  note one = process_lines_flags [OF step]
  show ?case
  proof (cases f1)
    case Continue
    with Cons.prems step have rest: "read_loop ce chunks ending (L1, S1) = (ex, L', S')"
      by simp
    from one Continue Cons.prems(2) have "\<not> readerReleased L1" by simp
    from Cons.IH [OF rest this] one Continue show ?thesis by simp
  next
    case Return_done
    with Cons.prems step have "ex = Exit_done" "L' = L1" "S' = S1"
      by simp_all
    with one Return_done Cons.prems(2) show ?thesis by simp
  next
    case Return_error
    with Cons.prems step have "ex = Exit_error" "L' = L1" "S' = S1"
      by simp_all
    with one Return_error Cons.prems(2) show ?thesis by simp
  qed
qed

lemma read_stream_releases:
  assumes "read_stream ce tr S = (ex, L, S')"
  shows "releaseLock_calls L = 1 \<and> readerReleased L = (ex = Exit_done \<or> ex = Exit_error)"
proof -
  let ?L0 = "\<lparr>fullAssistantContent = [], currentSources = [], readerReleased = False,
               releaseLock_calls = 0\<rparr>"
  obtain L1 where loop: "read_loop ce (tr_chunks tr) (tr_ending tr) (?L0, S) = (ex, L1, S')"
    and fin: "L = release_finally L1"
    using assms by (auto simp: read_stream_def split: prod.splits)
  from read_loop_flags [OF loop] show ?thesis
    by (auto simp: fin release_finally_def split: if_splits)
qed

text \<open>
  Claim C8. Whatever the transport delivers, a call that obtained a reader calls
  \<open>releaseLock\<close> exactly once: in the handler when it leaves on a done or an error event,
  where the flag is set, and in \<open>finally\<close> when the stream is exhausted or a read is
  rejected, as an abort does, where the flag is still unset. The flag is what keeps
  \<open>finally\<close> from releasing a second time.
\<close>

theorem reader_released_exactly_once:
  "(case read_stream ce tr S of
      (ex, L, S') \<Rightarrow>
        releaseLock_calls L = 1 \<and> readerReleased L = (ex = Exit_done \<or> ex = Exit_error))
   \<and> (trim content \<noteq> [] \<and> \<not> isLoading state
        \<and> cl_fetch ce (request_body ce content options) = FetchResponse True status (Some tr)
      \<longrightarrow> res_releaseLock_calls (sendMessage ce content options state prev) = 1
          \<and> res_exit (sendMessage ce content options state prev) =
              Some (fst (read_stream ce tr (begin_request ce content options prev))))"
proof -
  have stream: "releaseLock_calls L = 1 \<and> readerReleased L = (ex = Exit_done \<or> ex = Exit_error)"
    if "read_stream ce tr S0 = (ex, L, S')" for S0 ex L S'
    using that by (rule read_stream_releases)
  have first: "case read_stream ce tr S of
      (ex, L, S') \<Rightarrow>
        releaseLock_calls L = 1 \<and> readerReleased L = (ex = Exit_done \<or> ex = Exit_error)"
    using stream [of S] by (cases "read_stream ce tr S") simp
  have send: "res_releaseLock_calls (sendMessage ce content options state prev) = 1
          \<and> res_exit (sendMessage ce content options state prev) =
              Some (fst (read_stream ce tr (begin_request ce content options prev)))"
    if guard: "trim content \<noteq> []" "\<not> isLoading state"
      and fetch: "cl_fetch ce (request_body ce content options) = FetchResponse True status (Some tr)"
  proof -
    obtain ex L S2 where run: "read_stream ce tr (begin_request ce content options prev) = (ex, L, S2)"
      by (cases "read_stream ce tr (begin_request ce content options prev)") auto
    from stream [OF run] have one: "releaseLock_calls L = 1" by simp
    show ?thesis
      using guard fetch run one
      by (cases ex) (simp_all add: sendMessage_def Let_def)
  qed
  from first send show ?thesis by blast
qed

text \<open>The example call for C8: a response whose stream ends with a done event.\<close>

theorem reader_released_exactly_once_witness:
  "res_releaseLock_calls (sendMessage ex_client ''hi'' ex_options ex_state ex_state) = 1"
proof -
  have guard: "trim ''hi'' \<noteq> [] \<and> \<not> isLoading ex_state
      \<and> cl_fetch ex_client (request_body ex_client ''hi'' ex_options) =
          FetchResponse True 200 (Some \<lparr>tr_chunks = ex_chunks, tr_ending = Exhausted\<rparr>)"
    by (simp add: trim_def is_ws_def ex_state_def ex_client_def)
  show ?thesis
    using guard
      reader_released_exactly_once [where ce = ex_client and content = "''hi''" and state = ex_state
        and prev = ex_state and options = ex_options and status = 200
        and tr = "\<lparr>tr_chunks = ex_chunks, tr_ending = Exhausted\<rparr>"]
    by simp
qed






lemma process_lines_append:
  "process_lines ce (xs @ ys) LS =
     (case process_lines ce xs LS of
        (Continue, LS') \<Rightarrow> process_lines ce ys LS'
      | (Return_done, LS') \<Rightarrow> (Return_done, LS')
      | (Return_error, LS') \<Rightarrow> (Return_error, LS'))"
  by (induction xs arbitrary: LS) (auto split: prod.splits flow.splits)

lemma process_line_skip:
  assumes "startsWith line ''data: ''"
    and "trim (slice 6 line) = [] \<or> cl_JSON_parse ce (trim (slice 6 line)) = None"
  shows "process_line ce line LS = (Continue, LS)"
  using assms by (cases LS) (auto simp: process_line_def Let_def)

text \<open>
  Claim C10. A line with the event prefix whose remainder is blank or does not parse leaves
  the locals and the state as they were, and the loop goes on: the lines of a chunk are
  processed as if that line were not there.
\<close>

theorem malformed_event_line_skipped:
  assumes "startsWith line ''data: ''"
    and "trim (slice 6 line) = [] \<or> cl_JSON_parse ce (trim (slice 6 line)) = None"
  shows "process_line ce line (L, S) = (Continue, L, S)
       \<and> process_lines ce (earlier @ line # later) LS = process_lines ce (earlier @ later) LS"
proof -
  have skip: "process_line ce line X = (Continue, X)" for X
    using assms by (rule process_line_skip)
  have step: "process_lines ce (line # later) X = process_lines ce later X" for X
    by (simp add: skip)
  have "process_lines ce (earlier @ line # later) LS = process_lines ce (earlier @ later) LS"
    by (simp only: process_lines_append step)
  with skip [of "(L, S)"] show ?thesis by simp
qed

text \<open>The example line for C10: an event cut off by the end of a chunk.\<close>

theorem malformed_event_line_skipped_witness:
  \<open>process_line ex_client ''data: {"type":"te''
     (\<lparr>fullAssistantContent = ''Hel'', currentSources = [], readerReleased = False,
       releaseLock_calls = 0\<rparr>, ex_state) =
     (Continue,
      \<lparr>fullAssistantContent = ''Hel'', currentSources = [], readerReleased = False,
       releaseLock_calls = 0\<rparr>, ex_state)\<close>
proof -
  have pre: \<open>startsWith ''data: {"type":"te'' ''data: ''\<close>
    by (simp add: startsWith_def)
  have bad: \<open>trim (slice 6 ''data: {"type":"te'') = []
      \<or> cl_JSON_parse ex_client (trim (slice 6 ''data: {"type":"te'')) = None\<close>
    by (simp add: trim_def is_ws_def slice_def ex_client_def ex_events_def)
  show ?thesis
    using malformed_event_line_skipped [OF pre bad, where earlier = "[]" and later = "[]"]
    by blast
qed

end
